theory Spec2Isabelle
  imports Main
begin

section \<open>Data model of \<open>main_llama.py\<close>\<close>

text \<open>
  Python strings are modelled as \<open>string\<close>; a \<open>char\<close> stands for a code point below 256.
  A value obtained with \<open>dict.get\<close> is a \<open>string option\<close>, \<open>None\<close> being Python's \<open>None\<close>.
  The call identifier is \<open>form_data.get("CallSid")\<close>, so the keys of the session store
  are of type \<open>string option\<close>: the code uses \<open>None\<close> as a dictionary key like any other value
  when the form has no \<open>CallSid\<close> field.
\<close>

type_synonym call_id = "string option"

text \<open>A transcript entry, the dictionary \<open>{"role": ..., "content": ...}\<close>.\<close>

record message =
  role :: string
  content :: string

text \<open>A session, the dictionary \<open>{"conversation_history": [...]}\<close>.\<close>

record session =
  conversation_history :: "message list"

text \<open>The module-level values read by the handlers. \<open>SYSTEM_MESSAGE\<close> is the prompt
  loaded once at import time.\<close>

record config =
  TWILIO_ACCOUNT_SID :: string
  TWILIO_AUTH_TOKEN :: string
  TWILIO_PHONE_NUMBER :: string
  NGROK_URL :: "string option"
  SYSTEM_MESSAGE :: string

definition LLAMA_MODEL :: string where
  "LLAMA_MODEL = ''meta-llama/Llama-3-70b-chat-hf''"

subsection \<open>The two external services\<close>

text \<open>
  An exception (a subclass of \<open>Exception\<close>) raised inside a call into one of the two SDKs,
  carrying the text \<open>str(e)\<close>. Both \<open>except\<close> clauses of the module catch \<open>Exception\<close>;
  what is not derived from it (\<open>KeyboardInterrupt\<close>, \<open>SystemExit\<close>) is outside the model.
  A service is a function from the request to its outcome; every property below holds for
  every such function. The \<open>print\<close> calls of the module write a log and are left out.
\<close>

datatype sdk_error = SdkError (str_e: string)

text \<open>
  The request \<open>together_client.chat.completions.create(...)\<close>. The three float-valued
  sampling literals (\<open>temperature=0.3\<close>, \<open>top_p=0.7\<close>, \<open>repetition_penalty=1.0\<close>) are the same
  in every request and are not represented.
\<close>

record together_request =
  model :: string
  messages :: "message list"
  max_tokens :: int
  top_k :: int

text \<open>The reply object, read as \<open>response.choices[0].message.content\<close>; every level of it
  may be missing in a malformed reply.\<close>

datatype chat_message = ChatMessage (message_content: "string option")
datatype chat_choice = ChatChoice (choice_message: "chat_message option")
datatype chat_response = ChatResponse (choices: "chat_choice list option")

type_synonym together_api = "together_request \<Rightarrow> sdk_error + chat_response"

text \<open>The request \<open>Client(sid, token).calls.create(...)\<close>; its result is \<open>call.sid\<close>.\<close>

record twilio_request =
  account_sid :: string
  auth_token :: string
  url :: string
  call_to :: string
  call_from :: string
  record_call :: bool
  recording_status_callback :: string
  recording_status_callback_method :: string

type_synonym twilio_api = "twilio_request \<Rightarrow> sdk_error + string"

subsection \<open>Process state\<close>

text \<open>
  The global dictionary \<open>conversation_sessions\<close>, together with the requests sent so far to
  the inference service and to the telephony provider, oldest first. A handler takes the
  world and returns the new one. A form is the result of \<open>await request.form()\<close>, read
  with \<open>get\<close>.
\<close>

record world =
  conversation_sessions :: "call_id \<rightharpoonup> session"
  together_requests :: "together_request list"
  twilio_requests :: "twilio_request list"

type_synonym form = "string \<rightharpoonup> string"

subsection \<open>Voice-response markup\<close>

record gather_attrs =
  gather_input :: string
  gather_action :: string
  gather_method :: string
  enhanced :: bool
  speech_model :: string
  speech_timeout :: string
  gather_timeout :: int

datatype twiml =
    Say (say_text: string) (say_voice: "string option")
  | Gather gather_attrs "twiml list"

record http_response =
  body :: "twiml list"
  media_type :: string

section \<open>Operations\<close>

subsection \<open>\<open>str.strip()\<close>\<close>

text \<open>The code points below 256 for which \<open>str.isspace\<close> holds.\<close>

definition isspace :: "char \<Rightarrow> bool" where
  "isspace c = ((of_char c :: nat) \<in> set [9, 10, 11, 12, 13, 28, 29, 30, 31, 32, 133, 160])"

definition strip :: "string \<Rightarrow> string" where
  "strip s = rev (dropWhile isspace (rev (dropWhile isspace s)))"

text \<open>The f-string rendering of an optional string.\<close>

definition fstr :: "string option \<Rightarrow> string" where
  "fstr v = (case v of None \<Rightarrow> ''None'' | Some s \<Rightarrow> s)"

subsection \<open>\<open>make_call\<close>\<close>

record CallRequest =
  to_phone_number :: string

definition make_call ::
  "config \<Rightarrow> twilio_api \<Rightarrow> CallRequest \<Rightarrow> world \<Rightarrow> (string \<times> string) list \<times> world" where
  "make_call cfg twilio request w =
     (if to_phone_number request = [] then
        ([(''error'', ''Phone number is required'')], w)
      else
        (let req = \<lparr>account_sid = TWILIO_ACCOUNT_SID cfg,
                    auth_token = TWILIO_AUTH_TOKEN cfg,
                    url = fstr (NGROK_URL cfg) @ ''/voice-handler'',
                    call_to = to_phone_number request,
                    call_from = TWILIO_PHONE_NUMBER cfg,
                    record_call = True,
                    recording_status_callback = fstr (NGROK_URL cfg) @ ''/recording-status'',
                    recording_status_callback_method = ''POST''\<rparr>;
             w' = w\<lparr>twilio_requests := twilio_requests w @ [req]\<rparr>
         in case twilio req of
              Inr sid \<Rightarrow> ([(''call_sid'', sid), (''status'', ''success'')], w')
            | Inl e \<Rightarrow> ([(''error'', str_e e), (''status'', ''failed'')], w')))"

subsection \<open>\<open>generate_llama_response\<close>\<close>

datatype py_exception = KeyError | IndexError | AttributeError | TypeError | Raised sdk_error

text \<open>Reading \<open>response.choices[0].message.content.strip()\<close>.\<close>

definition first_choice_text :: "chat_response \<Rightarrow> py_exception + string" where
  "first_choice_text response =
     (case choices response of
        None \<Rightarrow> Inl TypeError
      | Some [] \<Rightarrow> Inl IndexError
      | Some (c # _) \<Rightarrow>
          (case choice_message c of
             None \<Rightarrow> Inl AttributeError
           | Some m \<Rightarrow>
               (case message_content m of
                  None \<Rightarrow> Inl AttributeError
                | Some text \<Rightarrow> Inr (strip text))))"

text \<open>The body of the \<open>try\<close> block.\<close>

definition llama_try :: "together_api \<Rightarrow> call_id \<Rightarrow> world \<Rightarrow> (py_exception + string) \<times> world" where
  "llama_try together call_sid w =
     (case conversation_sessions w call_sid of
        None \<Rightarrow> (Inl KeyError, w)
      | Some session \<Rightarrow>
          (let req = \<lparr>model = LLAMA_MODEL,
                      messages = conversation_history session,
                      max_tokens = 150,
                      top_k = 50\<rparr>;
               w' = w\<lparr>together_requests := together_requests w @ [req]\<rparr>
           in case together req of
                Inl e \<Rightarrow> (Inl (Raised e), w')
              | Inr response \<Rightarrow> (first_choice_text response, w')))"

definition generate_llama_response :: "together_api \<Rightarrow> call_id \<Rightarrow> world \<Rightarrow> string \<times> world" where
  "generate_llama_response together call_sid w =
     (case llama_try together call_sid w of
        (Inr text, w') \<Rightarrow> (text, w')
      | (Inl e, w') \<Rightarrow>
          (''I apologize, but I'm having trouble processing your request right now. Please try again.'', w'))"

subsection \<open>\<open>handle_voice_interaction\<close>\<close>

text \<open>\<open>conversation_sessions[call_sid]["conversation_history"].append(m)\<close>\<close>

definition history_append :: "call_id \<Rightarrow> message \<Rightarrow> world \<Rightarrow> py_exception + world" where
  "history_append call_sid m w =
     (case conversation_sessions w call_sid of
        None \<Rightarrow> Inl KeyError
      | Some session \<Rightarrow>
          Inr (w\<lparr>conversation_sessions := (conversation_sessions w)
                 (call_sid \<mapsto> session\<lparr>conversation_history := conversation_history session @ [m]\<rparr>)\<rparr>))"

text \<open>The markup built around the utterance \<open>ai_response\<close>.\<close>

definition voice_response :: "string \<Rightarrow> http_response" where
  "voice_response ai_response =
     \<lparr>body =
        [Gather \<lparr>gather_input = ''speech'', gather_action = ''/voice-handler'',
                 gather_method = ''POST'', enhanced = True, speech_model = ''phone_call'',
                 speech_timeout = ''auto'', gather_timeout = 10\<rparr>
           [Say ai_response (Some ''Polly.Joanna'')],
         Say ''Thank you for calling. Have a great day!'' None],
      media_type = ''application/xml''\<rparr>"

definition handle_voice_interaction ::
  "config \<Rightarrow> together_api \<Rightarrow> form \<Rightarrow> world \<Rightarrow> py_exception + http_response \<times> world" where
  "handle_voice_interaction cfg together form_data w =
     (let call_sid = form_data ''CallSid'';
          speech_result = (case form_data ''SpeechResult'' of None \<Rightarrow> [] | Some s \<Rightarrow> s)
      in
      if conversation_sessions w call_sid = None then
        Inr (voice_response ''Hello! Thank you for calling. How can I assist you today?'',
             w\<lparr>conversation_sessions := (conversation_sessions w)
                 (call_sid \<mapsto> \<lparr>conversation_history =
                                 [\<lparr>role = ''system'', content = SYSTEM_MESSAGE cfg\<rparr>]\<rparr>)\<rparr>)
      else if speech_result \<noteq> [] then
        (case history_append call_sid \<lparr>role = ''user'', content = speech_result\<rparr> w of
           Inl e \<Rightarrow> Inl e
         | Inr w1 \<Rightarrow>
             (case generate_llama_response together call_sid w1 of
                (ai_response, w2) \<Rightarrow>
                  (case history_append call_sid \<lparr>role = ''assistant'', content = ai_response\<rparr> w2 of
                     Inl e \<Rightarrow> Inl e
                   | Inr w3 \<Rightarrow> Inr (voice_response ai_response, w3))))
      else
        Inr (voice_response ''I didn't catch that. Could you please repeat?'', w))"

subsection \<open>\<open>handle_recording_status\<close>\<close>

definition handle_recording_status :: "form \<Rightarrow> world \<Rightarrow> (string \<times> string) list \<times> world" where
  "handle_recording_status form_data w =
     (let recording_status = form_data ''RecordingStatus'';
          call_sid = form_data ''CallSid''
      in
      ([(''status'', ''received'')],
       if recording_status = Some ''completed'' then
         (if conversation_sessions w call_sid \<noteq> None then
            w\<lparr>conversation_sessions := (conversation_sessions w)(call_sid := None)\<rparr>
          else w)
       else w))"

subsection \<open>Start-up state\<close>

text \<open>\<open>conversation_sessions = {}\<close> at import time; nothing has been sent yet.\<close>

definition initial_world :: world where
  "initial_world = \<lparr>conversation_sessions = Map.empty, together_requests = [], twilio_requests = []\<rparr>"

section \<open>The transcript invariant\<close>

text \<open>
  A transcript is well formed when its first entry is the system message holding the loaded
  prompt and no later entry has the role \<open>system\<close>.
\<close>

definition transcript_ok :: "config \<Rightarrow> message list \<Rightarrow> bool" where
  "transcript_ok cfg h =
     (case h of
        [] \<Rightarrow> False
      | m # rest \<Rightarrow> m = \<lparr>role = ''system'', content = SYSTEM_MESSAGE cfg\<rparr> \<and>
                    list_all (\<lambda>x. role x \<noteq> ''system'') rest)"

definition store_inv :: "config \<Rightarrow> world \<Rightarrow> bool" where
  "store_inv cfg w =
     (\<forall>k s. conversation_sessions w k = Some s \<longrightarrow> transcript_ok cfg (conversation_history s))"

section \<open>Shorthands\<close>

text \<open>The request built by \<open>generate_llama_response\<close> for a transcript, and the fixed
  reply of its \<open>except\<close> branch.\<close>

abbreviation llama_request :: "message list \<Rightarrow> together_request" where
  "llama_request history \<equiv>
     \<lparr>model = LLAMA_MODEL, messages = history, max_tokens = 150, top_k = 50\<rparr>"

abbreviation fallback_reply :: string where
  "fallback_reply \<equiv>
     ''I apologize, but I'm having trouble processing your request right now. Please try again.''"

text \<open>The request built by \<open>make_call\<close> for a destination number.\<close>

abbreviation twilio_call_request :: "config \<Rightarrow> CallRequest \<Rightarrow> twilio_request" where
  "twilio_call_request cfg request \<equiv>
     \<lparr>account_sid = TWILIO_ACCOUNT_SID cfg,
      auth_token = TWILIO_AUTH_TOKEN cfg,
      url = fstr (NGROK_URL cfg) @ ''/voice-handler'',
      call_to = to_phone_number request,
      call_from = TWILIO_PHONE_NUMBER cfg,
      record_call = True,
      recording_status_callback = fstr (NGROK_URL cfg) @ ''/recording-status'',
      recording_status_callback_method = ''POST''\<rparr>"

section \<open>Sample inputs\<close>

abbreviation sample_cfg :: config where
  "sample_cfg \<equiv>
     \<lparr>TWILIO_ACCOUNT_SID = ''AC1'', TWILIO_AUTH_TOKEN = ''secret'',
      TWILIO_PHONE_NUMBER = ''+15550100'', NGROK_URL = Some ''https://example.ngrok.io'',
      SYSTEM_MESSAGE = ''You are a helpful agent.''\<rparr>"

abbreviation together_down :: together_api where
  "together_down \<equiv> (\<lambda>req. Inl (SdkError ''connection refused''))"

abbreviation together_says :: "string \<Rightarrow> together_api" where
  "together_says reply \<equiv>
     (\<lambda>req. Inr (ChatResponse (Some [ChatChoice (Some (ChatMessage (Some reply)))])))"

abbreviation twilio_down :: twilio_api where
  "twilio_down \<equiv> (\<lambda>req. Inl (SdkError ''Unable to create record''))"

abbreviation twilio_up :: twilio_api where
  "twilio_up \<equiv> (\<lambda>req. Inr ''CA123'')"

abbreviation sample_session :: session where
  "sample_session \<equiv>
     \<lparr>conversation_history = [\<lparr>role = ''system'', content = ''You are a helpful agent.''\<rparr>]\<rparr>"

abbreviation two_calls_world :: world where
  "two_calls_world \<equiv>
     \<lparr>conversation_sessions =
        [Some ''CA123'' \<mapsto> sample_session, Some ''CA456'' \<mapsto> sample_session],
      together_requests = [], twilio_requests = []\<rparr>"

abbreviation active_world :: world where
  "active_world \<equiv>
     \<lparr>conversation_sessions = [Some ''CA123'' \<mapsto> sample_session],
      together_requests = [], twilio_requests = []\<rparr>"

section \<open>Properties\<close>

subsection \<open>\<open>strip\<close> removes exactly the surrounding whitespace\<close>

lemma rev_dropWhile_rev_split:
  "rev (dropWhile P (rev xs)) @ rev (takeWhile P (rev xs)) = xs"
proof -
  have "rev (takeWhile P (rev xs) @ dropWhile P (rev xs)) = xs"
    by (simp only: takeWhile_dropWhile_id rev_rev_ident)
  then show ?thesis
    by (simp only: rev_append)
qed

lemma strip_split:
  "takeWhile isspace text @ strip text @
     rev (takeWhile isspace (rev (dropWhile isspace text))) = text"
proof -
  have "strip text @ rev (takeWhile isspace (rev (dropWhile isspace text))) =
          dropWhile isspace text"
    unfolding strip_def by (rule rev_dropWhile_rev_split)
  then show ?thesis
    by (simp only: takeWhile_dropWhile_id)
qed

lemma strip_decomposition:
  "\<exists>pre post. text = pre @ strip text @ post \<and> list_all isspace pre \<and> list_all isspace post"
proof (intro exI conjI)
  show "text = takeWhile isspace text @ strip text @
     rev (takeWhile isspace (rev (dropWhile isspace text)))"
    by (rule strip_split [symmetric])
  show "list_all isspace (takeWhile isspace text)"
    by (auto simp add: list_all_iff dest: set_takeWhileD)
  show "list_all isspace (rev (takeWhile isspace (rev (dropWhile isspace text))))"
    by (auto simp add: list_all_iff dest: set_takeWhileD)
qed

lemma strip_no_trailing: "strip text \<noteq> [] \<Longrightarrow> \<not> isspace (last (strip text))"
proof -
  assume ne: "strip text \<noteq> []"
  define r where "r = rev (dropWhile isspace text)"
  have s: "strip text = rev (dropWhile isspace r)"
    by (simp only: strip_def r_def)
  have d: "dropWhile isspace r \<noteq> []"
    using ne unfolding s by simp
  then have "\<not> isspace (hd (dropWhile isspace r))"
    by (rule hd_dropWhile)
  moreover have "last (strip text) = hd (dropWhile isspace r)"
    unfolding s by (rule last_rev)
  ultimately show ?thesis
    by simp
qed

lemma strip_no_leading: "strip text \<noteq> [] \<Longrightarrow> \<not> isspace (hd (strip text))"
proof -
  assume ne: "strip text \<noteq> []"
  define t1 where "t1 = dropWhile isspace text"
  define post where "post = rev (takeWhile isspace (rev t1))"
  have split: "strip text @ post = t1"
    unfolding strip_def t1_def post_def by (rule rev_dropWhile_rev_split)
  have "t1 \<noteq> []"
    using ne split by (cases "strip text") auto
  then have "\<not> isspace (hd t1)"
    unfolding t1_def by (rule hd_dropWhile)
  moreover have "hd t1 = hd (strip text)"
    using ne split [symmetric] by simp
  ultimately show ?thesis
    by simp
qed

lemma strip_fallback_reply: "strip fallback_reply = fallback_reply"
  by (simp add: strip_def isspace_def)

subsection \<open>What the inference adapter returns\<close>

lemma glr_no_session:
  "conversation_sessions w k = None \<Longrightarrow>
   fst (generate_llama_response together k w) = fallback_reply"
  by (simp add: generate_llama_response_def llama_try_def)

lemma glr_request_raises:
  "conversation_sessions w k = Some s \<Longrightarrow>
   together (llama_request (conversation_history s)) = Inl e \<Longrightarrow>
   fst (generate_llama_response together k w) = fallback_reply"
  by (simp add: generate_llama_response_def llama_try_def)

lemma glr_reply_read:
  "conversation_sessions w k = Some s \<Longrightarrow>
   together (llama_request (conversation_history s)) = Inr r \<Longrightarrow>
   fst (generate_llama_response together k w) =
     (case first_choice_text r of Inl e \<Rightarrow> fallback_reply | Inr t \<Rightarrow> t)"
  by (simp add: generate_llama_response_def llama_try_def split: sum.splits)

subsection \<open>The inference adapter leaves the session store alone\<close>

lemma generate_llama_response_world:
  "conversation_sessions w k = Some s \<Longrightarrow>
   snd (generate_llama_response together k w) =
     w\<lparr>together_requests := together_requests w @
          [\<lparr>model = LLAMA_MODEL, messages = conversation_history s,
            max_tokens = 150, top_k = 50\<rparr>]\<rparr>"
  by (simp add: generate_llama_response_def llama_try_def Let_def
      split: option.splits sum.splits prod.splits)

subsection \<open>The three branches of the voice handler\<close>

lemma hvi_new:
  "conversation_sessions w (form_data ''CallSid'') = None \<Longrightarrow>
   handle_voice_interaction cfg together form_data w =
     Inr (voice_response ''Hello! Thank you for calling. How can I assist you today?'',
          w\<lparr>conversation_sessions := (conversation_sessions w)
              (form_data ''CallSid'' \<mapsto>
                 \<lparr>conversation_history =
                    [\<lparr>role = ''system'', content = SYSTEM_MESSAGE cfg\<rparr>]\<rparr>)\<rparr>)"
  by (simp add: handle_voice_interaction_def)

lemma hvi_silent:
  "conversation_sessions w (form_data ''CallSid'') = Some s \<Longrightarrow>
   form_data ''SpeechResult'' = None \<or> form_data ''SpeechResult'' = Some [] \<Longrightarrow>
   handle_voice_interaction cfg together form_data w =
     Inr (voice_response ''I didn't catch that. Could you please repeat?'', w)"
  by (auto simp add: handle_voice_interaction_def)

lemma hvi_speech:
  assumes present: "conversation_sessions w (form_data ''CallSid'') = Some s"
    and speech: "form_data ''SpeechResult'' = Some speech" "speech \<noteq> []"
  shows "(let history = conversation_history s @ [\<lparr>role = ''user'', content = speech\<rparr>];
              reply = fst (generate_llama_response together (form_data ''CallSid'')
                        (w\<lparr>conversation_sessions := (conversation_sessions w)
                             (form_data ''CallSid'' \<mapsto> s\<lparr>conversation_history := history\<rparr>)\<rparr>))
          in handle_voice_interaction cfg together form_data w =
               Inr (voice_response reply,
                    w\<lparr>conversation_sessions := (conversation_sessions w)
                          (form_data ''CallSid'' \<mapsto>
                             s\<lparr>conversation_history :=
                                  history @ [\<lparr>role = ''assistant'', content = reply\<rparr>]\<rparr>),
                       together_requests := together_requests w @
                          [\<lparr>model = LLAMA_MODEL, messages = history,
                            max_tokens = 150, top_k = 50\<rparr>]\<rparr>))"
proof -
  define k where "k = form_data ''CallSid''"
  define history where "history = conversation_history s @ [\<lparr>role = ''user'', content = speech\<rparr>]"
  define w1 where "w1 = w\<lparr>conversation_sessions := (conversation_sessions w)
                (k \<mapsto> s\<lparr>conversation_history := history\<rparr>)\<rparr>"
  define reply where "reply = fst (generate_llama_response together k w1)"
  define req where "req = \<lparr>model = LLAMA_MODEL, messages = history, max_tokens = 150, top_k = 50\<rparr>"
  define w2 where "w2 = w1\<lparr>together_requests := together_requests w1 @ [req]\<rparr>"
  define w3 where "w3 = w\<lparr>conversation_sessions := (conversation_sessions w)
                (k \<mapsto> s\<lparr>conversation_history :=
                              history @ [\<lparr>role = ''assistant'', content = reply\<rparr>]\<rparr>),
              together_requests := together_requests w @ [req]\<rparr>"
  have present': "conversation_sessions w k = Some s"
    using present by (simp add: k_def)
  have user: "history_append k \<lparr>role = ''user'', content = speech\<rparr> w = Inr w1"
    using present' by (simp add: history_append_def w1_def history_def)
  have k1: "conversation_sessions w1 k = Some (s\<lparr>conversation_history := history\<rparr>)"
    by (simp add: w1_def)
  have "snd (generate_llama_response together k w1) = w2"
    using generate_llama_response_world [OF k1, of together] by (simp add: w2_def req_def)
  then have gen: "generate_llama_response together k w1 = (reply, w2)"
    unfolding reply_def by (metis prod.collapse)
  have assistant: "history_append k \<lparr>role = ''assistant'', content = reply\<rparr> w2 = Inr w3"
    by (simp add: history_append_def w2_def w1_def w3_def)
  have "handle_voice_interaction cfg together form_data w = Inr (voice_response reply, w3)"
    unfolding handle_voice_interaction_def Let_def k_def [symmetric]
    using present' speech
    by (simp only: user gen assistant option.simps sum.case prod.case if_False if_True
        option.distinct not_False_eq_True simp_thms)
  then show ?thesis
    unfolding Let_def k_def [symmetric] history_def [symmetric] w1_def [symmetric]
      reply_def [symmetric] req_def [symmetric] w3_def [symmetric] .
qed

lemma hvi_cases:
  obtains
    (new) "conversation_sessions w (form_data ''CallSid'') = None"
      "handle_voice_interaction cfg together form_data w =
         Inr (voice_response ''Hello! Thank you for calling. How can I assist you today?'',
              w\<lparr>conversation_sessions := (conversation_sessions w)
                  (form_data ''CallSid'' \<mapsto>
                     \<lparr>conversation_history =
                        [\<lparr>role = ''system'', content = SYSTEM_MESSAGE cfg\<rparr>]\<rparr>)\<rparr>)"
  | (silent) s where "conversation_sessions w (form_data ''CallSid'') = Some s"
      "handle_voice_interaction cfg together form_data w =
         Inr (voice_response ''I didn't catch that. Could you please repeat?'', w)"
  | (speech) s speech reply where "conversation_sessions w (form_data ''CallSid'') = Some s"
      "handle_voice_interaction cfg together form_data w =
         Inr (voice_response reply,
              w\<lparr>conversation_sessions := (conversation_sessions w)
                    (form_data ''CallSid'' \<mapsto>
                       s\<lparr>conversation_history := conversation_history s @
                            [\<lparr>role = ''user'', content = speech\<rparr>,
                             \<lparr>role = ''assistant'', content = reply\<rparr>]\<rparr>),
                 together_requests := together_requests w @
                    [llama_request (conversation_history s @
                       [\<lparr>role = ''user'', content = speech\<rparr>])]\<rparr>)"
proof (cases "conversation_sessions w (form_data ''CallSid'')")
  case None
  then show ?thesis
    using hvi_new [where w = w and form_data = form_data and cfg = cfg
        and together = together] new
    by blast
next
  case (Some s)
  show ?thesis
  proof (cases "form_data ''SpeechResult'' = None \<or> form_data ''SpeechResult'' = Some []")
    case True
    then show ?thesis
      using hvi_silent [where w = w and form_data = form_data and s = s
          and cfg = cfg and together = together] Some silent [of s]
      by blast
  next
    case False
    then obtain sp where sp: "form_data ''SpeechResult'' = Some sp" "sp \<noteq> []"
      by (cases "form_data ''SpeechResult''") auto
    show ?thesis
      using hvi_speech [where w = w and form_data = form_data and s = s and speech = sp
          and cfg = cfg and together = together] Some sp
        speech [where s = s and speech = sp]
      by (simp add: Let_def)
  qed
qed

subsection \<open>The two branches of the recording-status handler\<close>

lemma hrs_completed:
  "form_data ''RecordingStatus'' = Some ''completed'' \<Longrightarrow>
   handle_recording_status form_data w =
     ([(''status'', ''received'')],
      w\<lparr>conversation_sessions := (conversation_sessions w)(form_data ''CallSid'' := None)\<rparr>)"
  by (cases "conversation_sessions w (form_data ''CallSid'')")
    (simp_all add: handle_recording_status_def Let_def fun_upd_idem)

lemma hrs_other:
  "form_data ''RecordingStatus'' \<noteq> Some ''completed'' \<Longrightarrow>
   handle_recording_status form_data w = ([(''status'', ''received'')], w)"
  by (simp add: handle_recording_status_def Let_def)

subsection \<open>Both handlers preserve the transcript invariant\<close>

lemma transcript_ok_fresh:
  "transcript_ok cfg [\<lparr>role = ''system'', content = SYSTEM_MESSAGE cfg\<rparr>]"
  by (simp add: transcript_ok_def)

lemma transcript_ok_turn:
  "transcript_ok cfg h \<Longrightarrow>
   transcript_ok cfg (h @ [\<lparr>role = ''user'', content = speech\<rparr>,
                           \<lparr>role = ''assistant'', content = reply\<rparr>])"
  by (cases h) (simp_all add: transcript_ok_def)

lemma store_inv_initial: "store_inv cfg initial_world"
  by (simp add: store_inv_def initial_world_def)

lemma hvi_preserves:
  assumes inv: "store_inv cfg w"
  shows "\<exists>resp w'. handle_voice_interaction cfg together form_data w = Inr (resp, w') \<and>
           store_inv cfg w' \<and>
           (\<forall>k s. conversation_sessions w k = Some s \<longrightarrow>
              (\<exists>ext. conversation_sessions w' k =
                 Some (s\<lparr>conversation_history := conversation_history s @ ext\<rparr>)))"
proof (cases rule: hvi_cases [where w = w and form_data = form_data and cfg = cfg
      and together = together])
  case new
  let ?w' = "w\<lparr>conversation_sessions := (conversation_sessions w)
              (form_data ''CallSid'' \<mapsto>
                 \<lparr>conversation_history =
                    [\<lparr>role = ''system'', content = SYSTEM_MESSAGE cfg\<rparr>]\<rparr>)\<rparr>"
  have "store_inv cfg ?w'"
    using inv by (simp add: store_inv_def transcript_ok_fresh)
  moreover have "\<exists>ext. conversation_sessions ?w' k =
      Some (s\<lparr>conversation_history := conversation_history s @ ext\<rparr>)"
    if "conversation_sessions w k = Some s" for k s
  proof -
    have "k \<noteq> form_data ''CallSid''"
      using that new(1) by auto
    then have "conversation_sessions ?w' k =
        Some (s\<lparr>conversation_history := conversation_history s @ []\<rparr>)"
      using that by simp
    then show ?thesis by (rule exI)
  qed
  ultimately show ?thesis
    using new(2) by blast
next
  case (silent s0)
  have "\<exists>ext. conversation_sessions w k =
      Some (s\<lparr>conversation_history := conversation_history s @ ext\<rparr>)"
    if "conversation_sessions w k = Some s" for k s
  proof -
    have "conversation_sessions w k =
        Some (s\<lparr>conversation_history := conversation_history s @ []\<rparr>)"
      using that by simp
    then show ?thesis by (rule exI)
  qed
  then show ?thesis
    using silent(2) inv by blast
next
  case (speech s0 sp reply)
  let ?turn = "[\<lparr>role = ''user'', content = sp\<rparr>, \<lparr>role = ''assistant'', content = reply\<rparr>]"
  let ?w' = "w\<lparr>conversation_sessions := (conversation_sessions w)
                (form_data ''CallSid'' \<mapsto>
                   s0\<lparr>conversation_history := conversation_history s0 @ ?turn\<rparr>),
              together_requests := together_requests w @
                [llama_request (conversation_history s0 @ [\<lparr>role = ''user'', content = sp\<rparr>])]\<rparr>"
  have "transcript_ok cfg (conversation_history s0)"
    using inv speech(1) by (simp add: store_inv_def)
  then have "transcript_ok cfg (conversation_history s0 @ ?turn)"
    by (rule transcript_ok_turn)
  then have "store_inv cfg ?w'"
    using inv by (simp add: store_inv_def)
  moreover have "\<exists>ext. conversation_sessions ?w' k =
      Some (s\<lparr>conversation_history := conversation_history s @ ext\<rparr>)"
    if "conversation_sessions w k = Some s" for k s
  proof (cases "k = form_data ''CallSid''")
    case True
    then have "s = s0" using that speech(1) by simp
    then have "conversation_sessions ?w' k =
        Some (s\<lparr>conversation_history := conversation_history s @ ?turn\<rparr>)"
      using True by simp
    then show ?thesis by (rule exI)
  next
    case False
    then have "conversation_sessions ?w' k =
        Some (s\<lparr>conversation_history := conversation_history s @ []\<rparr>)"
      using that by simp
    then show ?thesis by (rule exI)
  qed
  ultimately show ?thesis
    using speech(2) by blast
qed

lemma hrs_preserves:
  assumes inv: "store_inv cfg w"
  shows "store_inv cfg (snd (handle_recording_status form_data w)) \<and>
         (\<forall>k s. conversation_sessions (snd (handle_recording_status form_data w)) k = Some s \<longrightarrow>
            conversation_sessions w k = Some s)"
proof (cases "form_data ''RecordingStatus'' = Some ''completed''")
  case True
  then show ?thesis
    using inv by (simp add: hrs_completed store_inv_def split: if_splits)
next
  case False
  then show ?thesis
    using inv by (simp add: hrs_other)
qed

subsection \<open>Claims about the voice handler\<close>

text \<open>
  C1. For a call identifier that is not in the session store, whatever the speech field
  holds (the form is arbitrary), one invocation of the voice handler returns the markup that
  gathers speech while saying the fixed greeting in the voice \<open>Polly.Joanna\<close> and then
  says the goodbye line, as XML, and a world that differs from the old one only in the
  session store: the store gains one entry, under that call identifier, whose transcript is
  the single system message holding the loaded prompt. The list of requests sent to the
  inference service is the same as before, so the inference adapter was not invoked.
\<close>

theorem voice_handler_new_call:
  assumes "conversation_sessions w (form_data ''CallSid'') = None"
  shows "handle_voice_interaction cfg together form_data w =
           Inr (\<lparr>body =
                   [Gather \<lparr>gather_input = ''speech'', gather_action = ''/voice-handler'',
                            gather_method = ''POST'', enhanced = True,
                            speech_model = ''phone_call'', speech_timeout = ''auto'',
                            gather_timeout = 10\<rparr>
                      [Say ''Hello! Thank you for calling. How can I assist you today?'' (Some ''Polly.Joanna'')],
                    Say ''Thank you for calling. Have a great day!'' None],
                 media_type = ''application/xml''\<rparr>,
                w\<lparr>conversation_sessions := (conversation_sessions w)
                    (form_data ''CallSid'' \<mapsto>
                       \<lparr>conversation_history =
                          [\<lparr>role = ''system'', content = SYSTEM_MESSAGE cfg\<rparr>]\<rparr>)\<rparr>)
         \<and> together_requests (snd (projr (handle_voice_interaction cfg together form_data w))) =
             together_requests w"
  using assms by (simp add: handle_voice_interaction_def voice_response_def)

theorem voice_handler_new_call_witness:
  "handle_voice_interaction sample_cfg together_down
     [''CallSid'' \<mapsto> ''CA123'', ''SpeechResult'' \<mapsto> ''I need help''] initial_world =
   Inr (\<lparr>body =
                   [Gather \<lparr>gather_input = ''speech'', gather_action = ''/voice-handler'',
                            gather_method = ''POST'', enhanced = True,
                            speech_model = ''phone_call'', speech_timeout = ''auto'',
                            gather_timeout = 10\<rparr>
                      [Say ''Hello! Thank you for calling. How can I assist you today?'' (Some ''Polly.Joanna'')],
                    Say ''Thank you for calling. Have a great day!'' None],
                 media_type = ''application/xml''\<rparr>, active_world)
   \<and> together_requests (snd (projr (handle_voice_interaction sample_cfg together_down
        [''CallSid'' \<mapsto> ''CA123'', ''SpeechResult'' \<mapsto> ''I need help''] initial_world))) = []"
  using voice_handler_new_call
    [where w = initial_world and cfg = sample_cfg and together = together_down
       and form_data = "[''CallSid'' \<mapsto> ''CA123'', ''SpeechResult'' \<mapsto> ''I need help'']"]
  by (simp add: initial_world_def)

text \<open>
  C2. For a call identifier that is in the session store, an invocation carrying a non-empty
  speech string appends exactly two entries to that session's transcript: first the user
  message holding the speech string, then the assistant message holding the reply of the
  inference adapter, which was run on the store that already holds the user message. The
  response is the markup that gathers speech while saying that reply in the voice
  \<open>Polly.Joanna\<close> and then says the goodbye line, and exactly one request, carrying the
  transcript up to and including the user message, was sent to the inference service.
\<close>

theorem voice_handler_speech_turn:
  assumes "conversation_sessions w (form_data ''CallSid'') = Some s"
    and "form_data ''SpeechResult'' = Some speech"
    and "speech \<noteq> []"
  shows "(let history = conversation_history s @ [\<lparr>role = ''user'', content = speech\<rparr>];
              reply = fst (generate_llama_response together (form_data ''CallSid'')
                        (w\<lparr>conversation_sessions := (conversation_sessions w)
                             (form_data ''CallSid'' \<mapsto> s\<lparr>conversation_history := history\<rparr>)\<rparr>))
          in handle_voice_interaction cfg together form_data w =
               Inr (\<lparr>body =
                   [Gather \<lparr>gather_input = ''speech'', gather_action = ''/voice-handler'',
                            gather_method = ''POST'', enhanced = True,
                            speech_model = ''phone_call'', speech_timeout = ''auto'',
                            gather_timeout = 10\<rparr>
                      [Say reply (Some ''Polly.Joanna'')],
                    Say ''Thank you for calling. Have a great day!'' None],
                 media_type = ''application/xml''\<rparr>,
                    w\<lparr>conversation_sessions := (conversation_sessions w)
                          (form_data ''CallSid'' \<mapsto>
                             s\<lparr>conversation_history := conversation_history s @
                                  [\<lparr>role = ''user'', content = speech\<rparr>,
                                   \<lparr>role = ''assistant'', content = reply\<rparr>]\<rparr>),
                       together_requests := together_requests w @ [llama_request history]\<rparr>))"
  using hvi_speech [where w = w and form_data = form_data and s = s and speech = speech
      and cfg = cfg and together = together] assms
  by (simp add: Let_def voice_response_def)

theorem voice_handler_speech_turn_witness:
  "handle_voice_interaction sample_cfg (together_says '' Sure, what do you need?  '')
     [''CallSid'' \<mapsto> ''CA123'', ''SpeechResult'' \<mapsto> ''I need help''] active_world =
   Inr (\<lparr>body =
                   [Gather \<lparr>gather_input = ''speech'', gather_action = ''/voice-handler'',
                            gather_method = ''POST'', enhanced = True,
                            speech_model = ''phone_call'', speech_timeout = ''auto'',
                            gather_timeout = 10\<rparr>
                      [Say ''Sure, what do you need?'' (Some ''Polly.Joanna'')],
                    Say ''Thank you for calling. Have a great day!'' None],
                 media_type = ''application/xml''\<rparr>,
        \<lparr>conversation_sessions = [Some ''CA123'' \<mapsto>
           \<lparr>conversation_history =
              [\<lparr>role = ''system'', content = ''You are a helpful agent.''\<rparr>,
               \<lparr>role = ''user'', content = ''I need help''\<rparr>,
               \<lparr>role = ''assistant'', content = ''Sure, what do you need?''\<rparr>]\<rparr>],
         together_requests =
           [llama_request [\<lparr>role = ''system'', content = ''You are a helpful agent.''\<rparr>,
                           \<lparr>role = ''user'', content = ''I need help''\<rparr>]],
         twilio_requests = []\<rparr>)"
proof -
  have reply: "fst (generate_llama_response (together_says '' Sure, what do you need?  '')
        (Some ''CA123'')
        \<lparr>conversation_sessions = [Some ''CA123'' \<mapsto>
           \<lparr>conversation_history =
              [\<lparr>role = ''system'', content = ''You are a helpful agent.''\<rparr>,
               \<lparr>role = ''user'', content = ''I need help''\<rparr>]\<rparr>],
         together_requests = [], twilio_requests = []\<rparr>) =
      ''Sure, what do you need?''"
    by (simp add: generate_llama_response_def llama_try_def first_choice_text_def
        strip_def isspace_def)
  show ?thesis
    using voice_handler_speech_turn
      [where w = active_world and cfg = sample_cfg and s = sample_session
         and together = "together_says '' Sure, what do you need?  ''"
         and speech = "''I need help''"
         and form_data = "[''CallSid'' \<mapsto> ''CA123'', ''SpeechResult'' \<mapsto> ''I need help'']"]
    by (simp add: Let_def reply)
qed

text \<open>
  C3. For a call identifier that is in the session store, an invocation whose speech field
  is absent or empty returns the markup that gathers speech while saying the fixed re-prompt
  in the voice \<open>Polly.Joanna\<close> and then says the goodbye line, and leaves the whole world
  as it was: no transcript changes and no request is sent to the inference service.
\<close>

theorem voice_handler_no_speech:
  assumes "conversation_sessions w (form_data ''CallSid'') = Some s"
    and "form_data ''SpeechResult'' = None \<or> form_data ''SpeechResult'' = Some []"
  shows "handle_voice_interaction cfg together form_data w =
           Inr (\<lparr>body =
                   [Gather \<lparr>gather_input = ''speech'', gather_action = ''/voice-handler'',
                            gather_method = ''POST'', enhanced = True,
                            speech_model = ''phone_call'', speech_timeout = ''auto'',
                            gather_timeout = 10\<rparr>
                      [Say ''I didn't catch that. Could you please repeat?'' (Some ''Polly.Joanna'')],
                    Say ''Thank you for calling. Have a great day!'' None],
                 media_type = ''application/xml''\<rparr>, w)"
  using assms by (auto simp add: handle_voice_interaction_def voice_response_def)

theorem voice_handler_no_speech_witness:
  "handle_voice_interaction sample_cfg together_down [''CallSid'' \<mapsto> ''CA123''] active_world =
     Inr (\<lparr>body =
                   [Gather \<lparr>gather_input = ''speech'', gather_action = ''/voice-handler'',
                            gather_method = ''POST'', enhanced = True,
                            speech_model = ''phone_call'', speech_timeout = ''auto'',
                            gather_timeout = 10\<rparr>
                      [Say ''I didn't catch that. Could you please repeat?'' (Some ''Polly.Joanna'')],
                    Say ''Thank you for calling. Have a great day!'' None],
                 media_type = ''application/xml''\<rparr>, active_world)
   \<and> handle_voice_interaction sample_cfg together_down
        [''CallSid'' \<mapsto> ''CA123'', ''SpeechResult'' \<mapsto> ''''] active_world =
     Inr (\<lparr>body =
                   [Gather \<lparr>gather_input = ''speech'', gather_action = ''/voice-handler'',
                            gather_method = ''POST'', enhanced = True,
                            speech_model = ''phone_call'', speech_timeout = ''auto'',
                            gather_timeout = 10\<rparr>
                      [Say ''I didn't catch that. Could you please repeat?'' (Some ''Polly.Joanna'')],
                    Say ''Thank you for calling. Have a great day!'' None],
                 media_type = ''application/xml''\<rparr>, active_world)"
  using voice_handler_no_speech
    [where w = active_world and cfg = sample_cfg and together = together_down
       and s = sample_session and form_data = "[''CallSid'' \<mapsto> ''CA123'']"]
    voice_handler_no_speech
    [where w = active_world and cfg = sample_cfg and together = together_down
       and s = sample_session
       and form_data = "[''CallSid'' \<mapsto> ''CA123'', ''SpeechResult'' \<mapsto> '''']"]
  by simp

text \<open>
  C9. On a turn with non-empty speech for an existing session, when the inference adapter
  fails (the request raises, or the reply cannot be read), the handler still appends
  exactly two entries: the user message, and an assistant message holding the fixed
  apologetic reply, which is also what is spoken. The outcome, response and world, is the
  one the handler produces when the model answers with the apologetic text itself.
\<close>

theorem voice_handler_failed_inference:
  assumes "conversation_sessions w (form_data ''CallSid'') = Some s"
    and "form_data ''SpeechResult'' = Some speech"
    and "speech \<noteq> []"
    and "together (llama_request
            (conversation_history s @ [\<lparr>role = ''user'', content = speech\<rparr>])) = Inl e
         \<or> (\<exists>r e'. together (llama_request
                 (conversation_history s @ [\<lparr>role = ''user'', content = speech\<rparr>])) = Inr r
               \<and> first_choice_text r = Inl e')"
  shows "handle_voice_interaction cfg together form_data w =
           Inr (voice_response fallback_reply,
                w\<lparr>conversation_sessions := (conversation_sessions w)
                      (form_data ''CallSid'' \<mapsto>
                         s\<lparr>conversation_history := conversation_history s @
                              [\<lparr>role = ''user'', content = speech\<rparr>,
                               \<lparr>role = ''assistant'', content = fallback_reply\<rparr>]\<rparr>),
                   together_requests := together_requests w @
                      [llama_request (conversation_history s @
                         [\<lparr>role = ''user'', content = speech\<rparr>])]\<rparr>)
         \<and> handle_voice_interaction cfg together form_data w =
             handle_voice_interaction cfg (together_says fallback_reply) form_data w"
proof -
  define k where "k = form_data ''CallSid''"
  define history where "history = conversation_history s @ [\<lparr>role = ''user'', content = speech\<rparr>]"
  define w1 where "w1 = w\<lparr>conversation_sessions := (conversation_sessions w)
                (k \<mapsto> s\<lparr>conversation_history := history\<rparr>)\<rparr>"
  have k1: "conversation_sessions w1 k = Some (s\<lparr>conversation_history := history\<rparr>)"
    by (simp add: w1_def)
  have h1: "conversation_history (s\<lparr>conversation_history := history\<rparr>) = history"
    by simp
  have failed: "fst (generate_llama_response together k w1) = fallback_reply"
  proof -
    from assms(4) consider
      (raised) "together (llama_request history) = Inl e"
      | (unreadable) r e' where "together (llama_request history) = Inr r"
          "first_choice_text r = Inl e'"
      unfolding history_def by blast
    then show ?thesis
    proof cases
      case raised
      then show ?thesis
        using glr_request_raises [where w = w1 and k = k and together = together
            and s = "s\<lparr>conversation_history := history\<rparr>" and e = e] k1
        by (simp only: h1)
    next
      case unreadable
      then show ?thesis
        using glr_reply_read [where w = w1 and k = k and together = together
            and s = "s\<lparr>conversation_history := history\<rparr>" and r = r] k1
        by (simp only: h1 sum.case)
    qed
  qed
  have said: "fst (generate_llama_response (together_says fallback_reply) k w1) = fallback_reply"
    using glr_reply_read [where w = w1 and k = k and together = "together_says fallback_reply"
        and s = "s\<lparr>conversation_history := history\<rparr>"] k1
    by (simp add: first_choice_text_def strip_fallback_reply)
  have a: "handle_voice_interaction cfg together form_data w =
             Inr (voice_response fallback_reply,
                  w\<lparr>conversation_sessions := (conversation_sessions w)
                        (k \<mapsto> s\<lparr>conversation_history := history @
                              [\<lparr>role = ''assistant'', content = fallback_reply\<rparr>]\<rparr>),
                     together_requests := together_requests w @ [llama_request history]\<rparr>)"
    using hvi_speech [where w = w and form_data = form_data and s = s and speech = speech
        and cfg = cfg and together = together] assms(1-3) failed
    unfolding Let_def k_def [symmetric] history_def [symmetric] w1_def [symmetric]
    by simp
  have b: "handle_voice_interaction cfg (together_says fallback_reply) form_data w =
             Inr (voice_response fallback_reply,
                  w\<lparr>conversation_sessions := (conversation_sessions w)
                        (k \<mapsto> s\<lparr>conversation_history := history @
                              [\<lparr>role = ''assistant'', content = fallback_reply\<rparr>]\<rparr>),
                     together_requests := together_requests w @ [llama_request history]\<rparr>)"
    using hvi_speech [where w = w and form_data = form_data and s = s and speech = speech
        and cfg = cfg and together = "together_says fallback_reply"] assms(1-3) said
    unfolding Let_def k_def [symmetric] history_def [symmetric] w1_def [symmetric]
    by simp
  show ?thesis
    using a b unfolding k_def history_def by simp
qed

theorem voice_handler_failed_inference_witness:
  "handle_voice_interaction sample_cfg together_down
     [''CallSid'' \<mapsto> ''CA123'', ''SpeechResult'' \<mapsto> ''I need help''] active_world =
   Inr (voice_response fallback_reply,
        \<lparr>conversation_sessions = [Some ''CA123'' \<mapsto>
           \<lparr>conversation_history =
              [\<lparr>role = ''system'', content = ''You are a helpful agent.''\<rparr>,
               \<lparr>role = ''user'', content = ''I need help''\<rparr>,
               \<lparr>role = ''assistant'', content = fallback_reply\<rparr>]\<rparr>],
         together_requests =
           [llama_request [\<lparr>role = ''system'', content = ''You are a helpful agent.''\<rparr>,
                           \<lparr>role = ''user'', content = ''I need help''\<rparr>]],
         twilio_requests = []\<rparr>)
   \<and> handle_voice_interaction sample_cfg (\<lambda>req. Inr (ChatResponse (Some [])))
       [''CallSid'' \<mapsto> ''CA123'', ''SpeechResult'' \<mapsto> ''I need help''] active_world =
     Inr (voice_response fallback_reply,
        \<lparr>conversation_sessions = [Some ''CA123'' \<mapsto>
           \<lparr>conversation_history =
              [\<lparr>role = ''system'', content = ''You are a helpful agent.''\<rparr>,
               \<lparr>role = ''user'', content = ''I need help''\<rparr>,
               \<lparr>role = ''assistant'', content = fallback_reply\<rparr>]\<rparr>],
         together_requests =
           [llama_request [\<lparr>role = ''system'', content = ''You are a helpful agent.''\<rparr>,
                           \<lparr>role = ''user'', content = ''I need help''\<rparr>]],
         twilio_requests = []\<rparr>)"
  using
    voice_handler_failed_inference
      [where w = active_world and cfg = sample_cfg and s = sample_session
         and together = together_down and speech = "''I need help''"
         and e = "SdkError ''connection refused''"
         and form_data = "[''CallSid'' \<mapsto> ''CA123'', ''SpeechResult'' \<mapsto> ''I need help'']"]
    voice_handler_failed_inference
      [where w = active_world and cfg = sample_cfg and s = sample_session
         and together = "\<lambda>req. Inr (ChatResponse (Some []))" and speech = "''I need help''"
         and form_data = "[''CallSid'' \<mapsto> ''CA123'', ''SpeechResult'' \<mapsto> ''I need help'']"]
  by (simp add: first_choice_text_def)

subsection \<open>Claims about the recording-status handler\<close>



subsection \<open>Claims about the session store as a whole\<close>

text \<open>
  C6. Suppose every session in the store has a well-formed transcript: it begins with the
  system message holding the loaded prompt and has no other system message. Then a
  voice-handler invocation (which creates a session, or runs a turn with or without speech)
  returns normally, the store after it is well formed again, and every session that was in
  the store is still there with its old transcript followed by the entries appended, if
  any. A recording-status event leaves the store well formed, and every session in the
  store after it was there before, unchanged. The empty store of the start-up state is
  well formed.
\<close>

theorem transcript_invariant_preserved:
  assumes "store_inv cfg w"
  shows "(\<exists>resp w'. handle_voice_interaction cfg together voice_form w = Inr (resp, w') \<and>
            store_inv cfg w' \<and>
            (\<forall>k s. conversation_sessions w k = Some s \<longrightarrow>
               (\<exists>ext. conversation_sessions w' k =
                  Some (s\<lparr>conversation_history := conversation_history s @ ext\<rparr>))))
       \<and> store_inv cfg (snd (handle_recording_status status_form w))
       \<and> (\<forall>k s. conversation_sessions (snd (handle_recording_status status_form w)) k = Some s \<longrightarrow>
             conversation_sessions w k = Some s)
       \<and> store_inv cfg initial_world"
  using hvi_preserves [where cfg = cfg and w = w and together = together
      and form_data = voice_form, OF assms]
    hrs_preserves [where cfg = cfg and w = w and form_data = status_form, OF assms]
    store_inv_initial [of cfg]
  by (intro conjI) (elim conjE, assumption)+

theorem transcript_invariant_preserved_witness:
  "store_inv sample_cfg active_world
   \<and> store_inv sample_cfg (snd (projr (handle_voice_interaction sample_cfg
         (together_says ''Sure.'')
         [''CallSid'' \<mapsto> ''CA123'', ''SpeechResult'' \<mapsto> ''I need help''] active_world)))
   \<and> store_inv sample_cfg (snd (handle_recording_status
         [''RecordingStatus'' \<mapsto> ''completed'', ''CallSid'' \<mapsto> ''CA123''] active_world))"
proof -
  have inv: "store_inv sample_cfg active_world"
    by (simp add: store_inv_def transcript_ok_def)
  note step = transcript_invariant_preserved
    [where cfg = sample_cfg and w = active_world and together = "together_says ''Sure.''"
       and voice_form = "[''CallSid'' \<mapsto> ''CA123'', ''SpeechResult'' \<mapsto> ''I need help'']"
       and status_form = "[''RecordingStatus'' \<mapsto> ''completed'', ''CallSid'' \<mapsto> ''CA123'']",
     OF inv]
  from step obtain resp w' where
    "handle_voice_interaction sample_cfg (together_says ''Sure.'')
       [''CallSid'' \<mapsto> ''CA123'', ''SpeechResult'' \<mapsto> ''I need help''] active_world =
     Inr (resp, w')" "store_inv sample_cfg w'"
    by blast
  then have "store_inv sample_cfg (snd (projr (handle_voice_interaction sample_cfg
         (together_says ''Sure.'')
         [''CallSid'' \<mapsto> ''CA123'', ''SpeechResult'' \<mapsto> ''I need help''] active_world)))"
    by simp
  moreover have "store_inv sample_cfg (snd (handle_recording_status
         [''RecordingStatus'' \<mapsto> ''completed'', ''CallSid'' \<mapsto> ''CA123''] active_world))"
    using step by blast
  ultimately show ?thesis
    using inv by blast
qed

text \<open>
  C10. An invocation of the voice handler or of the recording-status handler changes at
  most the store entry of the call identifier in its form: for every other call identifier
  the store holds afterwards exactly what it held before, present or absent, with the same
  transcript. The voice handler returns normally.
\<close>

theorem handlers_touch_only_their_call:
  assumes "k \<noteq> form_data ''CallSid''"
  shows "(\<exists>resp w'. handle_voice_interaction cfg together form_data w = Inr (resp, w') \<and>
            conversation_sessions w' k = conversation_sessions w k)
       \<and> conversation_sessions (snd (handle_recording_status form_data w)) k =
           conversation_sessions w k"
proof
  show "\<exists>resp w'. handle_voice_interaction cfg together form_data w = Inr (resp, w') \<and>
            conversation_sessions w' k = conversation_sessions w k"
    using assms
    by (cases rule: hvi_cases [where w = w and form_data = form_data and cfg = cfg
          and together = together]) simp_all
  show "conversation_sessions (snd (handle_recording_status form_data w)) k =
           conversation_sessions w k"
    using assms
    by (cases "form_data ''RecordingStatus'' = Some ''completed''")
      (simp_all add: hrs_completed hrs_other)
qed

theorem handlers_touch_only_their_call_witness:
  "conversation_sessions (snd (projr (handle_voice_interaction sample_cfg (together_says ''Sure.'')
       [''CallSid'' \<mapsto> ''CA123'', ''SpeechResult'' \<mapsto> ''I need help''] two_calls_world)))
     (Some ''CA456'') = Some sample_session
   \<and> conversation_sessions (snd (handle_recording_status
       [''RecordingStatus'' \<mapsto> ''completed'', ''CallSid'' \<mapsto> ''CA123''] two_calls_world))
     (Some ''CA456'') = Some sample_session"
proof -
  have other: "Some ''CA456'' \<noteq> [''CallSid'' \<mapsto> ''CA123'', ''SpeechResult'' \<mapsto> ''I need help'']
      ''CallSid''"
    by simp
  have other': "Some ''CA456'' \<noteq>
      [''RecordingStatus'' \<mapsto> ''completed'', ''CallSid'' \<mapsto> ''CA123''] ''CallSid''"
    by simp
  from handlers_touch_only_their_call
    [where k = "Some ''CA456''" and cfg = sample_cfg and together = "together_says ''Sure.''"
       and w = two_calls_world
       and form_data = "[''CallSid'' \<mapsto> ''CA123'', ''SpeechResult'' \<mapsto> ''I need help'']", OF other]
  obtain resp w' where
    "handle_voice_interaction sample_cfg (together_says ''Sure.'')
       [''CallSid'' \<mapsto> ''CA123'', ''SpeechResult'' \<mapsto> ''I need help''] two_calls_world =
     Inr (resp, w')"
    "conversation_sessions w' (Some ''CA456'') = conversation_sessions two_calls_world (Some ''CA456'')"
    by blast
  then have "conversation_sessions (snd (projr (handle_voice_interaction sample_cfg
       (together_says ''Sure.'')
       [''CallSid'' \<mapsto> ''CA123'', ''SpeechResult'' \<mapsto> ''I need help''] two_calls_world)))
     (Some ''CA456'') = Some sample_session"
    by simp
  moreover have "conversation_sessions (snd (handle_recording_status
       [''RecordingStatus'' \<mapsto> ''completed'', ''CallSid'' \<mapsto> ''CA123''] two_calls_world))
     (Some ''CA456'') = Some sample_session"
    using handlers_touch_only_their_call
      [where k = "Some ''CA456''" and cfg = sample_cfg and together = together_down
         and w = two_calls_world
         and form_data = "[''RecordingStatus'' \<mapsto> ''completed'', ''CallSid'' \<mapsto> ''CA123'']",
       OF other']
    by (elim conjE) simp
  ultimately show ?thesis
    by blast
qed

subsection \<open>Claims about the inference adapter\<close>

text \<open>
  C5. Whatever transcript the session holds, the inference adapter returns the text of the
  first choice with the surrounding whitespace removed when the request returns a reply whose
  first choice has a text: the result is that text without a prefix and a suffix made of
  whitespace only, and it neither starts nor ends with whitespace. In every other case it
  returns the fixed apologetic reply: when the session lookup fails, when the request raises,
  and when the reply has no list of choices, an empty list of choices, a first choice
  without a message, or a message without a text. The seven cases cover every outcome, and
  the adapter returns a string in each: no failure reaches its caller.
\<close>

theorem inference_adapter_result:
  "(conversation_sessions w k = Some s \<and>
      together (llama_request (conversation_history s)) =
        Inr (ChatResponse (Some (ChatChoice (Some (ChatMessage (Some raw))) # rest))) \<longrightarrow>
      fst (generate_llama_response together k w) = strip raw \<and>
      (\<exists>pre post. raw = pre @ strip raw @ post \<and>
         list_all isspace pre \<and> list_all isspace post) \<and>
      (strip raw \<noteq> [] \<longrightarrow>
         \<not> isspace (hd (strip raw)) \<and> \<not> isspace (last (strip raw))))
   \<and> (conversation_sessions w k = None \<longrightarrow>
          fst (generate_llama_response together k w) = fallback_reply)
   \<and> (conversation_sessions w k = Some s \<and>
        together (llama_request (conversation_history s)) = Inl e \<longrightarrow>
          fst (generate_llama_response together k w) = fallback_reply)
   \<and> (conversation_sessions w k = Some s \<and>
        together (llama_request (conversation_history s)) = Inr (ChatResponse None) \<longrightarrow>
          fst (generate_llama_response together k w) = fallback_reply)
   \<and> (conversation_sessions w k = Some s \<and>
        together (llama_request (conversation_history s)) = Inr (ChatResponse (Some [])) \<longrightarrow>
          fst (generate_llama_response together k w) = fallback_reply)
   \<and> (conversation_sessions w k = Some s \<and>
        together (llama_request (conversation_history s)) =
          Inr (ChatResponse (Some (ChatChoice None # rest))) \<longrightarrow>
          fst (generate_llama_response together k w) = fallback_reply)
   \<and> (conversation_sessions w k = Some s \<and>
        together (llama_request (conversation_history s)) =
          Inr (ChatResponse (Some (ChatChoice (Some (ChatMessage None)) # rest))) \<longrightarrow>
          fst (generate_llama_response together k w) = fallback_reply)"
proof (intro conjI impI; (elim conjE)?)
  assume "conversation_sessions w k = Some s"
    and "together (llama_request (conversation_history s)) =
        Inr (ChatResponse (Some (ChatChoice (Some (ChatMessage (Some raw))) # rest)))"
  then show "fst (generate_llama_response together k w) = strip raw"
    by (simp add: glr_reply_read first_choice_text_def)
next
  show "\<exists>pre post. raw = pre @ strip raw @ post \<and>
         list_all isspace pre \<and> list_all isspace post"
    by (rule strip_decomposition)
next
  assume "strip raw \<noteq> []"
  then show "\<not> isspace (hd (strip raw))" by (rule strip_no_leading)
next
  assume "strip raw \<noteq> []"
  then show "\<not> isspace (last (strip raw))" by (rule strip_no_trailing)
next
  assume "conversation_sessions w k = None"
  then show "fst (generate_llama_response together k w) = fallback_reply"
    by (rule glr_no_session)
next
  assume "conversation_sessions w k = Some s"
    and "together (llama_request (conversation_history s)) = Inl e"
  then show "fst (generate_llama_response together k w) = fallback_reply"
    by (rule glr_request_raises)
next
  assume "conversation_sessions w k = Some s"
    and "together (llama_request (conversation_history s)) = Inr (ChatResponse None)"
  then show "fst (generate_llama_response together k w) = fallback_reply"
    by (simp add: glr_reply_read first_choice_text_def)
next
  assume "conversation_sessions w k = Some s"
    and "together (llama_request (conversation_history s)) = Inr (ChatResponse (Some []))"
  then show "fst (generate_llama_response together k w) = fallback_reply"
    by (simp add: glr_reply_read first_choice_text_def)
next
  assume "conversation_sessions w k = Some s"
    and "together (llama_request (conversation_history s)) =
          Inr (ChatResponse (Some (ChatChoice None # rest)))"
  then show "fst (generate_llama_response together k w) = fallback_reply"
    by (simp add: glr_reply_read first_choice_text_def)
next
  assume "conversation_sessions w k = Some s"
    and "together (llama_request (conversation_history s)) =
          Inr (ChatResponse (Some (ChatChoice (Some (ChatMessage None)) # rest)))"
  then show "fst (generate_llama_response together k w) = fallback_reply"
    by (simp add: glr_reply_read first_choice_text_def)
qed

theorem inference_adapter_result_witness:
  "fst (generate_llama_response (together_says ''  Of course.  '') (Some ''CA123'') active_world) =
     ''Of course.''
   \<and> fst (generate_llama_response together_down None initial_world) = fallback_reply
   \<and> fst (generate_llama_response together_down (Some ''CA123'') active_world) = fallback_reply
   \<and> fst (generate_llama_response (\<lambda>req. Inr (ChatResponse None)) (Some ''CA123'') active_world) =
       fallback_reply
   \<and> fst (generate_llama_response (\<lambda>req. Inr (ChatResponse (Some []))) (Some ''CA123'')
         active_world) = fallback_reply
   \<and> fst (generate_llama_response (\<lambda>req. Inr (ChatResponse (Some [ChatChoice None])))
         (Some ''CA123'') active_world) = fallback_reply
   \<and> fst (generate_llama_response
         (\<lambda>req. Inr (ChatResponse (Some [ChatChoice (Some (ChatMessage None))])))
         (Some ''CA123'') active_world) = fallback_reply"
proof -
  have strip: "strip ''  Of course.  '' = ''Of course.''"
    by (simp add: strip_def isspace_def)
  show ?thesis
    using
      inference_adapter_result [where w = active_world and k = "Some ''CA123''"
        and s = sample_session and together = "together_says ''  Of course.  ''"
        and raw = "''  Of course.  ''" and rest = "[]"]
      inference_adapter_result [where w = initial_world and k = None and together = together_down]
      inference_adapter_result [where w = active_world and k = "Some ''CA123''"
        and s = sample_session and together = together_down
        and e = "SdkError ''connection refused''"]
      inference_adapter_result [where w = active_world and k = "Some ''CA123''"
        and s = sample_session and together = "\<lambda>req. Inr (ChatResponse None)"]
      inference_adapter_result [where w = active_world and k = "Some ''CA123''"
        and s = sample_session and together = "\<lambda>req. Inr (ChatResponse (Some []))"]
      inference_adapter_result [where w = active_world and k = "Some ''CA123''"
        and s = sample_session and rest = "[]"
        and together = "\<lambda>req. Inr (ChatResponse (Some [ChatChoice None]))"]
      inference_adapter_result [where w = active_world and k = "Some ''CA123''"
        and s = sample_session and rest = "[]"
        and together = "\<lambda>req. Inr (ChatResponse (Some [ChatChoice (Some (ChatMessage None))]))"]
    by (simp add: strip initial_world_def)
qed

subsection \<open>Claims about \<open>make_call\<close>\<close>

text \<open>
  C7, as amended. The handler answers every request with one of three objects and returns
  normally in each case. When the destination number is not empty, one request is sent to
  the telephony provider: if it returns a call, the answer is the call identifier with
  status \<open>success\<close>; if it raises, the answer is the text of the exception under \<open>error\<close>
  with status \<open>failed\<close>. When the destination number is empty, the answer is
  \<open>{"error": "Phone number is required"}\<close>, which has no status field, and nothing is sent.
\<close>

theorem make_call_response:
  "(to_phone_number request \<noteq> [] \<and> twilio (twilio_call_request cfg request) = Inr sid \<longrightarrow>
      make_call cfg twilio request w =
        ([(''call_sid'', sid), (''status'', ''success'')],
         w\<lparr>twilio_requests := twilio_requests w @ [twilio_call_request cfg request]\<rparr>))
   \<and> (to_phone_number request \<noteq> [] \<and> twilio (twilio_call_request cfg request) = Inl e \<longrightarrow>
      make_call cfg twilio request w =
        ([(''error'', str_e e), (''status'', ''failed'')],
         w\<lparr>twilio_requests := twilio_requests w @ [twilio_call_request cfg request]\<rparr>))
   \<and> (to_phone_number request = [] \<longrightarrow>
      make_call cfg twilio request w = ([(''error'', ''Phone number is required'')], w))"
  by (simp add: make_call_def Let_def)

theorem make_call_response_witness:
  "fst (make_call sample_cfg twilio_up \<lparr>to_phone_number = ''+15550199''\<rparr> initial_world) =
     [(''call_sid'', ''CA123''), (''status'', ''success'')]
   \<and> fst (make_call sample_cfg twilio_down \<lparr>to_phone_number = ''+15550199''\<rparr> initial_world) =
     [(''error'', ''Unable to create record''), (''status'', ''failed'')]
   \<and> fst (make_call sample_cfg twilio_up \<lparr>to_phone_number = ''''\<rparr> initial_world) =
     [(''error'', ''Phone number is required'')]"
proof -
  have "fst (make_call sample_cfg twilio_up \<lparr>to_phone_number = ''+15550199''\<rparr> initial_world) =
     [(''call_sid'', ''CA123''), (''status'', ''success'')]"
    using make_call_response [where cfg = sample_cfg and twilio = twilio_up
        and request = "\<lparr>to_phone_number = ''+15550199''\<rparr>" and w = initial_world
        and sid = "''CA123''" and e = "SdkError []"]
    by (elim conjE) simp
  moreover have "fst (make_call sample_cfg twilio_down \<lparr>to_phone_number = ''+15550199''\<rparr>
      initial_world) = [(''error'', ''Unable to create record''), (''status'', ''failed'')]"
    using make_call_response [where cfg = sample_cfg and twilio = twilio_down
        and request = "\<lparr>to_phone_number = ''+15550199''\<rparr>" and w = initial_world
        and e = "SdkError ''Unable to create record''" and sid = "[]"]
    by (elim conjE) simp
  moreover have "fst (make_call sample_cfg twilio_up \<lparr>to_phone_number = ''''\<rparr> initial_world) =
     [(''error'', ''Phone number is required'')]"
    using make_call_response [where cfg = sample_cfg and twilio = twilio_up
        and request = "\<lparr>to_phone_number = ''''\<rparr>" and w = initial_world
        and sid = "[]" and e = "SdkError []"]
    by (elim conjE) simp
  ultimately show ?thesis
    by blast
qed

text \<open>
  The claim C7 as stated fails for the empty destination number: the answer there is
  neither the success object nor an object holding both an error and the status
  \<open>failed\<close>.
\<close>

theorem make_call_empty_number_counterexample:
  "\<not> ((map_of (fst (make_call sample_cfg twilio_up \<lparr>to_phone_number = ''''\<rparr> initial_world))
            ''call_sid'' \<noteq> None
          \<and> map_of (fst (make_call sample_cfg twilio_up \<lparr>to_phone_number = ''''\<rparr> initial_world))
            ''status'' = Some ''success'')
      \<or> (map_of (fst (make_call sample_cfg twilio_up \<lparr>to_phone_number = ''''\<rparr> initial_world))
            ''error'' \<noteq> None
          \<and> map_of (fst (make_call sample_cfg twilio_up \<lparr>to_phone_number = ''''\<rparr> initial_world))
            ''status'' = Some ''failed''))"
  by (simp add: make_call_def)

text \<open>
  C8. A request whose destination number is the empty string is answered with
  \<open>{"error": "Phone number is required"}\<close>, and the world is unchanged: in particular no
  request is sent to the telephony provider.
\<close>

theorem make_call_empty_number:
  "make_call cfg twilio \<lparr>to_phone_number = ''''\<rparr> w =
     ([(''error'', ''Phone number is required'')], w)
   \<and> twilio_requests (snd (make_call cfg twilio \<lparr>to_phone_number = ''''\<rparr> w)) = twilio_requests w"
  by (simp add: make_call_def)

end
